theory Spec2Isabelle
  imports Complex_Main "HOL-Library.Multiset"
begin

section \<open>JavaScript numbers\<close>

text \<open>
  Every quantity of the dashboard is a JavaScript \<^verbatim>\<open>number\<close>. The model keeps the four
  kinds of value the code can see: a finite number, the two infinities and NaN. Finite
  arithmetic is carried out on the reals: rounding to 53 bits, overflow of a finite result
  to an infinity and the sign of zero are not represented (a zero divisor is taken as
  \<^verbatim>\<open>+0\<close>). The special values follow IEEE 754 as ECMAScript applies it. The rounding
  to binary64 is defined apart, with the payoff time, where a result turns on it.
\<close>

datatype number = Num real | PosInfinity | NegInfinity | NaN

fun js_neg :: "number \<Rightarrow> number" where
  "js_neg (Num x) = Num (- x)"
| "js_neg PosInfinity = NegInfinity"
| "js_neg NegInfinity = PosInfinity"
| "js_neg NaN = NaN"

text \<open>\<^verbatim>\<open>a + b\<close>\<close>

fun js_add :: "number \<Rightarrow> number \<Rightarrow> number" where
  "js_add (Num x) (Num y) = Num (x + y)"
| "js_add NaN b = NaN"
| "js_add a NaN = NaN"
| "js_add PosInfinity NegInfinity = NaN"
| "js_add NegInfinity PosInfinity = NaN"
| "js_add PosInfinity b = PosInfinity"
| "js_add NegInfinity b = NegInfinity"
| "js_add (Num x) b = b"

text \<open>\<^verbatim>\<open>a - b\<close>\<close>

definition js_sub :: "number \<Rightarrow> number \<Rightarrow> number" where
  "js_sub a b = js_add a (js_neg b)"

definition signed_inf :: "bool \<Rightarrow> number" where
  "signed_inf positive = (if positive then PosInfinity else NegInfinity)"

text \<open>\<^verbatim>\<open>a * b\<close>: an infinity times zero is NaN.\<close>

fun js_mul :: "number \<Rightarrow> number \<Rightarrow> number" where
  "js_mul (Num x) (Num y) = Num (x * y)"
| "js_mul NaN b = NaN"
| "js_mul a NaN = NaN"
| "js_mul (Num x) PosInfinity = (if x = 0 then NaN else signed_inf (0 < x))"
| "js_mul (Num x) NegInfinity = (if x = 0 then NaN else signed_inf (x < 0))"
| "js_mul PosInfinity (Num y) = (if y = 0 then NaN else signed_inf (0 < y))"
| "js_mul NegInfinity (Num y) = (if y = 0 then NaN else signed_inf (y < 0))"
| "js_mul PosInfinity PosInfinity = PosInfinity"
| "js_mul PosInfinity NegInfinity = NegInfinity"
| "js_mul NegInfinity PosInfinity = NegInfinity"
| "js_mul NegInfinity NegInfinity = PosInfinity"

text \<open>\<^verbatim>\<open>a / b\<close>: \<^verbatim>\<open>0 / 0\<close> is NaN, a non-zero number over zero is an infinity.\<close>

fun js_div :: "number \<Rightarrow> number \<Rightarrow> number" where
  "js_div (Num x) (Num y) =
     (if y \<noteq> 0 then Num (x / y)
      else if x = 0 then NaN
      else signed_inf (0 < x))"
| "js_div NaN b = NaN"
| "js_div a NaN = NaN"
| "js_div (Num x) PosInfinity = Num 0"
| "js_div (Num x) NegInfinity = Num 0"
| "js_div PosInfinity (Num y) = signed_inf (0 \<le> y)"
| "js_div NegInfinity (Num y) = signed_inf (y < 0)"
| "js_div PosInfinity PosInfinity = NaN"
| "js_div PosInfinity NegInfinity = NaN"
| "js_div NegInfinity PosInfinity = NaN"
| "js_div NegInfinity NegInfinity = NaN"

text \<open>\<^verbatim>\<open>a <= b\<close>, \<^verbatim>\<open>a < b\<close>: false as soon as one side is NaN.\<close>

fun js_le :: "number \<Rightarrow> number \<Rightarrow> bool" where
  "js_le (Num x) (Num y) = (x \<le> y)"
| "js_le NaN b = False"
| "js_le a NaN = False"
| "js_le NegInfinity b = True"
| "js_le (Num x) PosInfinity = True"
| "js_le (Num x) NegInfinity = False"
| "js_le PosInfinity PosInfinity = True"
| "js_le PosInfinity b = False"

fun js_lt :: "number \<Rightarrow> number \<Rightarrow> bool" where
  "js_lt (Num x) (Num y) = (x < y)"
| "js_lt NaN b = False"
| "js_lt a NaN = False"
| "js_lt PosInfinity b = False"
| "js_lt (Num x) NegInfinity = False"
| "js_lt (Num x) PosInfinity = True"
| "js_lt NegInfinity NegInfinity = False"
| "js_lt NegInfinity b = True"

text \<open>\<^verbatim>\<open>a >= b\<close>, \<^verbatim>\<open>a > b\<close>\<close>

definition js_ge :: "number \<Rightarrow> number \<Rightarrow> bool" where
  "js_ge a b = js_le b a"

definition js_gt :: "number \<Rightarrow> number \<Rightarrow> bool" where
  "js_gt a b = js_lt b a"

text \<open>\<^verbatim>\<open>Math.log\<close>\<close>

fun Math_log :: "number \<Rightarrow> number" where
  "Math_log (Num x) = (if x < 0 then NaN else if x = 0 then NegInfinity else Num (ln x))"
| "Math_log PosInfinity = PosInfinity"
| "Math_log NegInfinity = NaN"
| "Math_log NaN = NaN"

text \<open>\<^verbatim>\<open>Math.ceil\<close>\<close>

fun Math_ceil :: "number \<Rightarrow> number" where
  "Math_ceil (Num x) = Num (of_int \<lceil>x\<rceil>)"
| "Math_ceil a = a"

text \<open>\<^verbatim>\<open>Math.round\<close>: the nearest integer, a half rounding up.\<close>

fun Math_round :: "number \<Rightarrow> number" where
  "Math_round (Num x) = Num (of_int \<lfloor>x + 1 / 2\<rfloor>)"
| "Math_round a = a"

text \<open>\<^verbatim>\<open>Math.abs\<close>\<close>

fun Math_abs :: "number \<Rightarrow> number" where
  "Math_abs (Num x) = Num \<bar>x\<bar>"
| "Math_abs NaN = NaN"
| "Math_abs a = PosInfinity"

text \<open>\<^verbatim>\<open>Math.min\<close>, \<^verbatim>\<open>Math.max\<close> of two arguments: NaN if either is.\<close>

fun Math_min :: "number \<Rightarrow> number \<Rightarrow> number" where
  "Math_min NaN b = NaN"
| "Math_min a NaN = NaN"
| "Math_min a b = (if js_le a b then a else b)"

fun Math_max :: "number \<Rightarrow> number \<Rightarrow> number" where
  "Math_max NaN b = NaN"
| "Math_max a NaN = NaN"
| "Math_max a b = (if js_le a b then b else a)"

text \<open>
  \<^verbatim>\<open>Math.pow(base, n)\<close> for an exponent that is a non-negative integer, which is what
  the loop counters of the code pass. \<^verbatim>\<open>Math.pow(x, 0)\<close> is 1 for every \<^verbatim>\<open>x\<close>, NaN too.
\<close>

fun Math_pow :: "number \<Rightarrow> nat \<Rightarrow> number" where
  "Math_pow a 0 = Num 1"
| "Math_pow (Num x) n = Num (x ^ n)"
| "Math_pow PosInfinity n = PosInfinity"
| "Math_pow NegInfinity n = (if odd n then NegInfinity else PosInfinity)"
| "Math_pow NaN n = NaN"

text \<open>Truthiness of a number: \<^verbatim>\<open>0\<close> and NaN are falsy.\<close>

fun truthy :: "number \<Rightarrow> bool" where
  "truthy (Num x) = (x \<noteq> 0)"
| "truthy NaN = False"
| "truthy a = True"

section \<open>Debts and the payoff time (DebtStrategyCard.tsx)\<close>

datatype debt_type = credit_card | student_loan | mortgage | auto_loan | personal_loan | other_debt

record debt =
  name :: string
  debt_type :: debt_type
  balance :: number
  interestRate :: number
  minimumPayment :: number

text \<open>
  \<^verbatim>\<open>calculatePayoffTime(debt, extraPayment = 0)\<close>: the only guard is the comparison of the
  payment with the first month's interest, which returns \<^verbatim>\<open>Infinity\<close>; there is no
  branch for a zero rate. This is the reading on the reals; the reading with rounded
  results follows it.
\<close>

definition calculatePayoffTime :: "debt \<Rightarrow> number \<Rightarrow> number" where
  "calculatePayoffTime d extraPayment =
     (let monthlyRate = js_div (js_div (interestRate d) (Num 100)) (Num 12);
          payment = js_add (minimumPayment d) extraPayment
      in if js_le payment (js_mul (balance d) monthlyRate) then PosInfinity
         else
           let months =
                 js_div (Math_log (js_div payment (js_sub payment (js_mul (balance d) monthlyRate))))
                        (Math_log (js_add (Num 1) monthlyRate))
           in Math_ceil months)"

text \<open>
  The same function with every arithmetic result rounded as the machine rounds it. A
  finite \<^verbatim>\<open>number\<close> is an IEEE 754 binary64 value: a result is rounded to the nearest
  multiple of the unit in the last place of its binade (53 significant bits, exponents
  from -1022, below that the fixed unit of the subnormal numbers), a tie goes to the even
  multiple, and a rounded value of magnitude \<open>2 ^ 1024\<close> or more becomes an infinity.
  \<^verbatim>\<open>Math.log\<close> is implementation-approximated; it is taken as the rounded logarithm,
  which is exact at 1 as the language requires. The theorems about
  \<open>calculatePayoffTime\<close> are stated where the rounding cannot change the outcome; this
  reading shows what happens where it can.
\<close>

definition round_even :: "real \<Rightarrow> int" where
  "round_even y =
     (let f = \<lfloor>y\<rfloor>
      in if y - of_int f < 1 / 2 then f
         else if 1 / 2 < y - of_int f then f + 1
         else if even f then f else f + 1)"

definition binary64 :: "real \<Rightarrow> real" where
  "binary64 x =
     (if x = 0 then 0
      else let e = max (- 1022) \<lfloor>log 2 \<bar>x\<bar>\<rfloor>;
               ulp = 2 powr (of_int e - 52)
           in of_int (round_even (x / ulp)) * ulp)"

fun to_binary64 :: "number \<Rightarrow> number" where
  "to_binary64 (Num x) =
     (let y = binary64 x in if 2 ^ 1024 \<le> \<bar>y\<bar> then signed_inf (0 < y) else Num y)"
| "to_binary64 a = a"

definition calculatePayoffTime_binary64 :: "debt \<Rightarrow> number \<Rightarrow> number" where
  "calculatePayoffTime_binary64 d extraPayment =
     (let monthlyRate =
            to_binary64 (js_div (to_binary64 (js_div (interestRate d) (Num 100))) (Num 12));
          payment = to_binary64 (js_add (minimumPayment d) extraPayment)
      in if js_le payment (to_binary64 (js_mul (balance d) monthlyRate)) then PosInfinity
         else
           let months =
                 to_binary64
                   (js_div
                      (to_binary64 (Math_log (to_binary64
                         (js_div payment
                            (to_binary64 (js_sub payment
                               (to_binary64 (js_mul (balance d) monthlyRate))))))))
                      (to_binary64 (Math_log (to_binary64 (js_add (Num 1) monthlyRate)))))
           in Math_ceil months)"

text \<open>
  The closed form of the specification on the reals, for a balance \<open>b\<close>, an annual rate
  of \<open>a\<close> percent and a total payment \<open>p\<close>, before the ceiling is taken.
\<close>

definition spec_months :: "real \<Rightarrow> real \<Rightarrow> real \<Rightarrow> real" where
  "spec_months b a p = ln (p / (p - b * (a / 100 / 12))) / ln (1 + a / 100 / 12)"

text \<open>
  A month-by-month amortization, written from the wording of the specification, against
  which the closed form is compared: each month the balance earns one month of interest
  and the payment is taken off, and the months are counted until nothing is owed. The
  first argument bounds the number of months tried.
\<close>

fun spec_amortization_simulation :: "nat \<Rightarrow> real \<Rightarrow> real \<Rightarrow> real \<Rightarrow> nat option" where
  "spec_amortization_simulation 0 bal r p = None"
| "spec_amortization_simulation (Suc fuel) bal r p =
     (if bal \<le> 0 then Some 0
      else map_option Suc (spec_amortization_simulation fuel (bal + bal * r - p) r p))"

section \<open>Ordering the debts and the payoff plan (DebtStrategyCard.tsx)\<close>

datatype strategy = avalanche | snowball

text \<open>The comparator handed to \<^verbatim>\<open>sort\<close>.\<close>

definition compareDebts :: "strategy \<Rightarrow> debt \<Rightarrow> debt \<Rightarrow> number" where
  "compareDebts s a b =
     (if s = avalanche then js_sub (interestRate b) (interestRate a)
      else js_sub (balance a) (balance b))"

text \<open>
  \<^verbatim>\<open>Array.prototype.sort\<close> with a comparator is stable: an element moves behind another
  only when the comparator is positive on the pair (a NaN result counts as zero). It is
  modelled by insertion from the right, which keeps equal elements in input order. For a
  consistent comparator the language fixes the result, and this is it; when a sorted
  field is NaN the comparator is not consistent, the order is left to the implementation,
  and only the fact that the result rearranges the input is common to all of them.
\<close>

fun insert_sorted :: "('a \<Rightarrow> 'a \<Rightarrow> number) \<Rightarrow> 'a \<Rightarrow> 'a list \<Rightarrow> 'a list" where
  "insert_sorted cmp x [] = [x]"
| "insert_sorted cmp x (y # ys) =
     (if js_gt (cmp x y) (Num 0) then y # insert_sorted cmp x ys else x # y # ys)"

definition array_sort :: "('a \<Rightarrow> 'a \<Rightarrow> number) \<Rightarrow> 'a list \<Rightarrow> 'a list" where
  "array_sort cmp xs = foldr (insert_sorted cmp) xs []"

text \<open>\<^verbatim>\<open>[...debts].sort(...)\<close>: a sorted copy.\<close>

definition sortedDebts :: "strategy \<Rightarrow> debt list \<Rightarrow> debt list" where
  "sortedDebts s debts = array_sort (compareDebts s) debts"

text \<open>\<^verbatim>\<open>xs.reduce((sum, x) => sum + x, 0)\<close>\<close>

definition sum_numbers :: "number list \<Rightarrow> number" where
  "sum_numbers xs = foldl js_add (Num 0) xs"

text \<open>
  The entries of \<^verbatim>\<open>payoffPlan\<close>. The fields \<^verbatim>\<open>debt\<close> and \<^verbatim>\<open>extraPayment\<close> are called
  \<open>plan_debt\<close> and \<open>plan_extraPayment\<close>; the constant \<^verbatim>\<open>extraPayment\<close> keeps its name.
\<close>

record plan_item =
  plan_debt :: debt
  payoffOrder :: nat
  monthsToPayoff :: number
  plan_extraPayment :: number

definition extraPayment :: number where
  "extraPayment = Num 500"

definition remainingExtra :: number where
  "remainingExtra = extraPayment"

definition plan_entry :: "debt \<Rightarrow> nat \<Rightarrow> plan_item" where
  "plan_entry d index =
     (let extra = (if index = 0 then remainingExtra else Num 0);
          months = calculatePayoffTime d extra
      in \<lparr>plan_debt = d, payoffOrder = index + 1, monthsToPayoff = months,
          plan_extraPayment = extra\<rparr>)"

text \<open>\<^verbatim>\<open>sortedDebts.map((debt, index) => ...)\<close>\<close>

definition payoffPlan :: "strategy \<Rightarrow> debt list \<Rightarrow> plan_item list" where
  "payoffPlan s debts =
     map (\<lambda>(index, d). plan_entry d index) (enumerate 0 (sortedDebts s debts))"

definition isNaN :: "number \<Rightarrow> bool" where
  "isNaN a = (a = NaN)"

text \<open>The debts of the fixture \<^verbatim>\<open>mockUserProfile\<close>.\<close>

definition mockDebts :: "debt list" where
  "mockDebts =
     [\<lparr>name = ''Credit Card 1'', debt_type = credit_card, balance = Num 5000,
       interestRate = Num 18.99, minimumPayment = Num 150\<rparr>,
      \<lparr>name = ''Student Loan'', debt_type = student_loan, balance = Num 28000,
       interestRate = Num 4.5, minimumPayment = Num 350\<rparr>,
      \<lparr>name = ''Auto Loan'', debt_type = auto_loan, balance = Num 15000,
       interestRate = Num 5.2, minimumPayment = Num 450\<rparr>]"

section \<open>The growth projection (FIREProgressCard)\<close>

record fire_metrics =
  currentAge :: number
  retirementAge :: number
  currentSavings :: number
  monthlyContribution :: number
  expectedReturn :: number
  inflationRate :: number
  targetRetirementAmount :: number
  yearsToRetirement :: number
  progressPercentage :: number

text \<open>
  \<^verbatim>\<open>calculateFutureValue(years)\<close> reads the metrics of the component. It is called with
  the loop counter only, a non-negative integer. There is no branch for a zero rate, and
  the result is rounded to an integer. The arithmetic before \<^verbatim>\<open>Math.round\<close> is read on
  the reals.
\<close>

definition calculateFutureValue :: "fire_metrics \<Rightarrow> nat \<Rightarrow> number" where
  "calculateFutureValue metrics years =
     (let r = js_div (js_div (expectedReturn metrics) (Num 100)) (Num 12);
          n = years * 12;
          pmt = monthlyContribution metrics;
          pv = currentSavings metrics;
          futureValue =
            js_add (js_mul pv (Math_pow (js_add (Num 1) r) n))
                   (js_mul pmt (js_div (js_sub (Math_pow (js_add (Num 1) r) n) (Num 1)) r))
      in Math_round futureValue)"


text \<open>
  One element of \<^verbatim>\<open>projectionData\<close>; the keys \<^verbatim>\<open>'Current Path'\<close>, \<^verbatim>\<open>'Target'\<close> and
  \<^verbatim>\<open>'With Extra $500/mo'\<close> are the fields \<open>currentPath\<close>, \<open>target\<close> and \<open>withExtra\<close>.
\<close>

record projection_point =
  year :: number
  currentPath :: number
  target :: number
  withExtra :: number

definition projection_entry :: "fire_metrics \<Rightarrow> nat \<Rightarrow> projection_point" where
  "projection_entry metrics y =
     \<lparr>year = js_add (currentAge metrics) (Num (real y)),
      currentPath = calculateFutureValue metrics y,
      target = targetRetirementAmount metrics,
      withExtra =
        js_add (calculateFutureValue metrics y)
               (js_mul (js_mul (js_mul (Num 500) (Num 12)) (Num (real y)))
                       (Math_pow (Num 1.07) y))\<rparr>"

text \<open>
  The \<^verbatim>\<open>for\<close> loop that fills \<^verbatim>\<open>projectionData\<close>, from the counter \<open>y\<close> with the
  elements pushed so far. With an infinite bound it never ends, which is the value
  \<open>None\<close>.
\<close>

partial_function (option) projection_loop ::
  "fire_metrics \<Rightarrow> nat \<Rightarrow> projection_point list \<Rightarrow> projection_point list option" where
  "projection_loop metrics y acc =
     (if js_le (Num (real y)) (js_add (yearsToRetirement metrics) (Num 5))
      then projection_loop metrics (Suc y) (acc @ [projection_entry metrics y])
      else Some acc)"

definition projectionData :: "fire_metrics \<Rightarrow> projection_point list option" where
  "projectionData metrics = projection_loop metrics 0 []"

text \<open>The fixture \<^verbatim>\<open>mockFIREMetrics\<close> of the mock data.\<close>

definition mockFIREMetrics :: fire_metrics where
  "mockFIREMetrics =
     \<lparr>currentAge = Num 32, retirementAge = Num 55, currentSavings = Num 57000,
      monthlyContribution = Num 2000, expectedReturn = Num 7, inflationRate = Num 3,
      targetRetirementAmount = Num 2000000, yearsToRetirement = Num 23,
      progressPercentage = Num 2.85\<rparr>"

section \<open>Goal funding (GoalsTracker)\<close>

text \<open>
  A \<^verbatim>\<open>Date\<close> is its time value, the milliseconds since the epoch; invalid dates are left
  out. \<^verbatim>\<open>differenceInDays\<close> belongs to the date-fns library and is a parameter of the
  model. \<^verbatim>\<open>new Date()\<close> reads the clock: the reading is the argument \<open>now\<close>.
\<close>

type_synonym date = int

datatype priority = high | medium | low

record financial_goal =
  goal_id :: string
  goal_name :: string
  targetAmount :: number
  currentAmount :: number
  targetDate :: date
  goal_priority :: priority

definition calculateMonthlyNeeded ::
  "(date \<Rightarrow> date \<Rightarrow> int) \<Rightarrow> date \<Rightarrow> financial_goal \<Rightarrow> number" where
  "calculateMonthlyNeeded differenceInDays now goal =
     (let remaining = js_sub (targetAmount goal) (currentAmount goal);
          daysUntilTarget = Num (of_int (differenceInDays (targetDate goal) now));
          monthsRemaining = Math_max (Num 1) (js_div daysUntilTarget (Num 30))
      in js_div remaining monthsRemaining)"

text \<open>
  An instance of the library function for the examples: the full 24-hour days between
  two time values, truncated towards zero.
\<close>

definition full_days :: "date \<Rightarrow> date \<Rightarrow> int" where
  "full_days later earlier =
     (if earlier \<le> later then (later - earlier) div 86400000
      else - ((earlier - later) div 86400000))"

section \<open>The health score (FinancialHealthScore.tsx)\<close>

text \<open>Of each structure of the profile, the fields that the score reads, and a name.\<close>

record income =
  source :: string
  income_amount :: number
  isActive :: bool

record expense =
  expense_name :: string
  expense_amount :: number

record asset =
  asset_name :: string
  asset_value :: number

record budget_actual =
  actual_needs :: number
  actual_wants :: number
  actual_savings :: number

record budget_allocation =
  needs :: number
  wants :: number
  savings :: number
  actual :: budget_actual

record profile =
  incomes :: "income list"
  expenses :: "expense list"
  debts :: "debt list"
  assets :: "asset list"
  budgetAllocation :: budget_allocation
  emergencyFundTarget :: number
  emergencyFundCurrent :: number
  profile_creditScore :: "number option"

definition totalIncome :: "profile \<Rightarrow> number" where
  "totalIncome p =
     foldl (\<lambda>sum inc. if isActive inc then js_add sum (income_amount inc) else sum)
       (Num 0) (incomes p)"

definition totalExpenses :: "profile \<Rightarrow> number" where
  "totalExpenses p = foldl (\<lambda>sum exp. js_add sum (expense_amount exp)) (Num 0) (expenses p)"

definition totalDebt :: "profile \<Rightarrow> number" where
  "totalDebt p = foldl (\<lambda>sum debt. js_add sum (balance debt)) (Num 0) (debts p)"

definition totalAssets :: "profile \<Rightarrow> number" where
  "totalAssets p = foldl (\<lambda>sum asset. js_add sum (asset_value asset)) (Num 0) (assets p)"

record score_factors =
  emergencyFund :: number
  debtToIncome :: number
  savingsRate :: number
  netWorth :: number
  creditScore :: number
  budgetAdherence :: number

definition scores :: "profile \<Rightarrow> score_factors" where
  "scores p =
     \<lparr>emergencyFund =
        Math_min (Num 100)
          (js_mul (js_div (emergencyFundCurrent p) (emergencyFundTarget p)) (Num 100)),
      debtToIncome =
        Math_max (Num 0)
          (js_sub (Num 100)
             (js_mul (js_div (totalDebt p) (js_mul (totalIncome p) (Num 12))) (Num 100))),
      savingsRate =
        Math_min (Num 100)
          (js_mul (js_mul (js_div (js_sub (totalIncome p) (totalExpenses p)) (totalIncome p))
                          (Num 100))
                  (Num 5)),
      netWorth =
        Math_min (Num 100)
          (js_mul (js_div (totalAssets p) (Math_max (Num 1) (totalDebt p))) (Num 20)),
      creditScore =
        (case profile_creditScore p of
           None \<Rightarrow> Num 50
         | Some c \<Rightarrow> if truthy c then js_mul (js_div c (Num 850)) (Num 100) else Num 50),
      budgetAdherence =
        js_sub (Num 100)
          (js_mul (Math_abs (js_sub (actual_needs (actual (budgetAllocation p)))
                                    (needs (budgetAllocation p))))
                  (Num 2))\<rparr>"

definition overallScore :: "profile \<Rightarrow> number" where
  "overallScore p =
     (let s = scores p
      in Math_round
           (js_add
             (js_add
               (js_add
                 (js_add
                   (js_add (js_mul (emergencyFund s) (Num 0.25))
                           (js_mul (debtToIncome s) (Num 0.20)))
                   (js_mul (savingsRate s) (Num 0.20)))
                 (js_mul (netWorth s) (Num 0.15)))
               (js_mul (creditScore s) (Num 0.10)))
             (js_mul (budgetAdherence s) (Num 0.10))))"

text \<open>A profile that earns 1000 a month and spends 3000, with no debts and no assets.\<close>

definition deficitProfile :: profile where
  "deficitProfile =
     \<lparr>incomes = [\<lparr>source = ''Salary'', income_amount = Num 1000, isActive = True\<rparr>],
      expenses = [\<lparr>expense_name = ''Rent'', expense_amount = Num 3000\<rparr>],
      debts = [], assets = [],
      budgetAllocation =
        \<lparr>needs = Num 50, wants = Num 30, savings = Num 20,
         actual = \<lparr>actual_needs = Num 50, actual_wants = Num 30, actual_savings = Num 20\<rparr>\<rparr>,
      emergencyFundTarget = Num 1000, emergencyFundCurrent = Num 0,
      profile_creditScore = None\<rparr>"

section \<open>Properties of the payoff time\<close>

text \<open>The computation on finite inputs, once the guard has let the payment through.\<close>

lemma payoff_time_closed_form:
  assumes r: "0 < r" and pb: "b * r < p" and p: "0 < p"
  shows "Math_ceil (js_div (Math_log (js_div (Num p) (js_sub (Num p) (js_mul (Num b) (Num r)))))
                           (Math_log (js_add (Num 1) (Num r))))
         = Num (of_int \<lceil>ln (p / (p - b * r)) / ln (1 + r)\<rceil>)"
proof -
  define q where "q = p / (p - b * r)"
  have d: "p - b * r \<noteq> 0" using pb by simp
  have q: "0 < q" unfolding q_def using p pb by simp
  have l: "ln (1 + r) \<noteq> 0" using r by simp
  have quot: "js_div (Num p) (js_sub (Num p) (js_mul (Num b) (Num r))) = Num q"
    using d by (simp add: js_sub_def q_def)
  have lg: "Math_log (Num q) = Num (ln q)" using q by simp
  have "Math_ceil (js_div (Math_log (Num q)) (Math_log (js_add (Num 1) (Num r))))
        = Num (of_int \<lceil>ln q / ln (1 + r)\<rceil>)"
    unfolding lg using l r by simp
  then show ?thesis unfolding quot by (simp only: q_def)
qed

lemma monthly_rate_finite:
  "js_div (js_div (Num a) (Num 100)) (Num 12) = Num (a / 100 / 12)"
  by simp

text \<open>Past the guard, on finite inputs, the result is the ceiling of the closed form.\<close>

lemma payoff_time_convergent:
  assumes r: "0 < a / 100 / 12" and pb: "b * (a / 100 / 12) < m + e" and b: "0 \<le> b"
  shows "calculatePayoffTime
      \<lparr>name = n, debt_type = t, balance = Num b, interestRate = Num a, minimumPayment = Num m\<rparr>
      (Num e) = Num (of_int \<lceil>spec_months b a (m + e)\<rceil>)"
proof -
  have "0 \<le> b * (a / 100 / 12)" using r b by simp
  then have p: "0 < m + e" using pb by linarith
  show ?thesis
    unfolding calculatePayoffTime_def Let_def debt.simps monthly_rate_finite spec_months_def
    using pb payoff_time_closed_form [OF r pb p] by simp
qed

lemma spec_months_nonneg:
  assumes r: "0 < a / 100 / 12" and pb: "b * (a / 100 / 12) < p" and b: "0 \<le> b"
  shows "0 \<le> spec_months b a p"
proof -
  have br: "0 \<le> b * (a / 100 / 12)" using r b by simp
  have d: "0 < p - b * (a / 100 / 12)" using pb by simp
  have "p - b * (a / 100 / 12) \<le> p" using br by simp
  then have "1 \<le> p / (p - b * (a / 100 / 12))" using d by (simp add: pos_le_divide_eq)
  then have "0 \<le> ln (p / (p - b * (a / 100 / 12)))" by simp
  moreover have "0 < ln (1 + a / 100 / 12)" using r by simp
  ultimately show ?thesis unfolding spec_months_def by (intro divide_nonneg_pos)
qed

text \<open>
  C1, amended. For a debt with a balance between 0.01 and 10^12 and an annual rate
  between 10^-6 and 10^4 percent, with the monthly rate \<open>r = a / 100 / 12\<close> and the total
  payment \<open>p = m + e\<close>: when \<open>p\<close> is at most \<open>(1 - 10^-9) * b * r\<close> the payoff time is the
  number \<^verbatim>\<open>Infinity\<close> itself, not a separate tagged outcome; when \<open>p\<close> is above
  \<open>(1 + 10^-9) * b * r\<close> and at most 10^15 it is a whole number of months, never
  \<^verbatim>\<open>Infinity\<close>. Closer to \<open>b * r\<close> the rounding of the comparison decides.
\<close>

theorem payoff_time_infinity_outside_margin:
  assumes "1 / 100 \<le> b" and "b \<le> 10 ^ 12" and "1 / 10 ^ 6 \<le> a" and "a \<le> 10 ^ 4"
  shows "(m + e \<le> (1 - 1 / 10 ^ 9) * (b * (a / 100 / 12)) \<longrightarrow>
            calculatePayoffTime
              \<lparr>name = n, debt_type = t, balance = Num b, interestRate = Num a,
               minimumPayment = Num m\<rparr> (Num e) = PosInfinity)
       \<and> ((1 + 1 / 10 ^ 9) * (b * (a / 100 / 12)) < m + e \<and> m + e \<le> 10 ^ 15 \<longrightarrow>
            (\<exists>k\<ge>0. calculatePayoffTime
              \<lparr>name = n, debt_type = t, balance = Num b, interestRate = Num a,
               minimumPayment = Num m\<rparr> (Num e) = Num (of_int k)))"
proof -
  define I where "I = b * (a / 100 / 12)"
  have "(0::real) < 1 / 10 ^ 6" by simp
  then have "0 < a" using assms(3) by linarith
  then have r: "0 < a / 100 / 12" by simp
  have b: "0 \<le> b" using assms(1) by simp
  have I: "0 \<le> I" using r b by (simp add: I_def)
  have below: "calculatePayoffTime
              \<lparr>name = n, debt_type = t, balance = Num b, interestRate = Num a,
               minimumPayment = Num m\<rparr> (Num e) = PosInfinity"
    if h: "m + e \<le> (1 - 1 / 10 ^ 9) * I"
  proof -
    have "(1 - 1 / 10 ^ 9) * I \<le> 1 * I"
      using I by (intro mult_right_mono) simp_all
    with h have "m + e \<le> I" by linarith
    then show ?thesis by (simp add: calculatePayoffTime_def I_def)
  qed
  have above: "\<exists>k\<ge>0. calculatePayoffTime
              \<lparr>name = n, debt_type = t, balance = Num b, interestRate = Num a,
               minimumPayment = Num m\<rparr> (Num e) = Num (of_int k)"
    if h: "(1 + 1 / 10 ^ 9) * I < m + e \<and> m + e \<le> 10 ^ 15"
  proof -
    have "1 * I \<le> (1 + 1 / 10 ^ 9) * I"
      using I by (intro mult_right_mono) simp_all
    with h have "I < m + e" by linarith
    then have pb: "b * (a / 100 / 12) < m + e" by (simp only: I_def)
    have "0 \<le> \<lceil>spec_months b a (m + e)\<rceil>"
      using spec_months_nonneg [OF r pb b] by simp
    then show ?thesis using payoff_time_convergent [OF r pb b] by blast
  qed
  show ?thesis using below above unfolding I_def by blast
qed

text \<open>The fixture's credit card at 150 with 250 extra, and at a payment of 50 with 25 extra.\<close>

theorem payoff_time_infinity_outside_margin_witness:
  "(1::real) / 100 \<le> 5000 \<and> (5000::real) \<le> 10 ^ 12 \<and> (1::real) / 10 ^ 6 \<le> 18.99
   \<and> (18.99::real) \<le> 10 ^ 4
   \<and> (1 + 1 / 10 ^ 9) * ((5000::real) * (18.99 / 100 / 12)) < 150 + 250
   \<and> (150::real) + 250 \<le> 10 ^ 15
   \<and> (\<exists>k\<ge>0. calculatePayoffTime
         \<lparr>name = ''Credit Card 1'', debt_type = credit_card, balance = Num 5000,
          interestRate = Num 18.99, minimumPayment = Num 150\<rparr> (Num 250) = Num (of_int k))
   \<and> (50::real) + 25 \<le> (1 - 1 / 10 ^ 9) * (5000 * (18.99 / 100 / 12))
   \<and> calculatePayoffTime
         \<lparr>name = ''Credit Card 1'', debt_type = credit_card, balance = Num 5000,
          interestRate = Num 18.99, minimumPayment = Num 50\<rparr> (Num 25) = PosInfinity"
  using payoff_time_infinity_outside_margin
      [of 5000 "18.99" 150 250 "''Credit Card 1''" credit_card]
    payoff_time_infinity_outside_margin
      [of 5000 "18.99" 50 25 "''Credit Card 1''" credit_card]
  by simp

text \<open>
  The claim as written fails: with balance 5000 at 18.99 percent and a payment of 75,
  below the first month's interest of 79.125, the result is an infinite number.
\<close>

theorem payoff_time_nonconvergent_counterexample:
  "0 < (18.99::real) / 100 / 12 \<and> (75::real) + 0 \<le> 5000 * (18.99 / 100 / 12) \<and>
   calculatePayoffTime
     \<lparr>name = ''Credit Card 1'', debt_type = credit_card, balance = Num 5000,
      interestRate = Num 18.99, minimumPayment = Num 75\<rparr> (Num 0) = PosInfinity"
  by (simp add: calculatePayoffTime_def)

text \<open>
  The closed form lies between two whole numbers, away from both, when two comparisons of
  powers hold with room to spare.
\<close>

lemma log_quotient_between:
  fixes q c eps :: real
  assumes c: "1 < c" and q: "0 < q" and eps: "0 \<le> eps"
    and lo: "eps * (c - 1) \<le> 1 - c ^ n / q"
    and hi: "eps * (c - 1) \<le> 1 - q / c ^ Suc n"
  shows "real n + eps \<le> ln q / ln c" and "ln q / ln c \<le> real (Suc n) - eps"
proof -
  have lc: "0 < ln c" using c by simp
  have step: "eps * ln c \<le> eps * (c - 1)"
    using eps c ln_le_minus_one [of c] by (intro mult_left_mono) simp_all
  have low: "1 - 1 / y \<le> ln y" if "0 < y" for y :: real
    using ln_le_minus_one [of "1 / y"] that by (simp add: ln_div)
  have cn: "0 < c ^ n" "0 < c ^ Suc n" using c by simp_all
  have "1 - c ^ n / q \<le> ln (q / c ^ n)" using low [of "q / c ^ n"] q cn by simp
  also have "\<dots> = ln q - real n * ln c" using q cn c by (simp add: ln_div ln_realpow)
  finally have "(real n + eps) * ln c \<le> ln q" using lo step by (simp add: algebra_simps)
  then show "real n + eps \<le> ln q / ln c" using lc by (simp add: pos_le_divide_eq)
  have "1 - q / c ^ Suc n \<le> ln (c ^ Suc n / q)" using low [of "c ^ Suc n / q"] q cn by simp
  also have "\<dots> = real (Suc n) * ln c - ln q"
    using q cn c by (simp add: ln_div ln_realpow del: power_Suc)
  finally have "ln q \<le> (real (Suc n) - eps) * ln c" using hi step by (simp add: algebra_simps)
  then show "ln q / ln c \<le> real (Suc n) - eps" using lc by (simp add: pos_divide_le_eq)
qed

lemma credit_card_months_bounds:
  "14 + 1 / 1000 \<le> spec_months 5000 18.99 400"
  "spec_months 5000 18.99 400 \<le> 15 - 1 / 1000"
proof -
  have "real 14 + 1 / 1000
          \<le> ln ((400::real) / (400 - 5000 * (1899 / 120000))) / ln (1 + 1899 / 120000)"
    by (rule log_quotient_between(1) [where n = 14]) (simp_all add: field_simps)
  moreover have "ln ((400::real) / (400 - 5000 * (1899 / 120000))) / ln (1 + 1899 / 120000)
          \<le> real (Suc 14) - 1 / 1000"
    by (rule log_quotient_between(2) [where n = 14 and eps = "1 / 1000"])
      (simp_all add: field_simps)
  ultimately show "14 + 1 / 1000 \<le> spec_months 5000 18.99 400"
    and "spec_months 5000 18.99 400 \<le> 15 - 1 / 1000"
    by (simp_all add: spec_months_def)
qed

text \<open>Facts about the rounding to binary64.\<close>

lemma round_even_near: "\<bar>y - of_int z\<bar> < 1 / 2 \<Longrightarrow> round_even y = z"
proof (cases "of_int z \<le> y")
  case True
  assume a: "\<bar>y - of_int z\<bar> < 1 / 2"
  with True have "\<lfloor>y\<rfloor> = z" by (intro floor_unique) linarith+
  with a True show ?thesis by (simp add: round_even_def)
next
  case False
  assume a: "\<bar>y - of_int z\<bar> < 1 / 2"
  have "of_int (z - 1) \<le> y" using a False by simp
  moreover have "y < of_int (z - 1) + 1" using a False by simp
  ultimately
  have f: "\<lfloor>y\<rfloor> = z - 1" by (rule floor_unique)
  have "1 / 2 < y - of_int (z - 1)" using a False by simp
  with f show ?thesis by (simp add: round_even_def)
qed

lemma round_even_bounds:
  assumes "0 \<le> y"
  shows "0 \<le> round_even y" and "of_int (round_even y) \<le> 2 * y"
proof -
  have f0: "0 \<le> \<lfloor>y\<rfloor>" using assms by simp
  have fl: "of_int \<lfloor>y\<rfloor> \<le> y" by simp
  have r0: "0 \<le> real_of_int \<lfloor>y\<rfloor>" using f0 by simp
  show "0 \<le> round_even y" using f0 by (simp add: round_even_def Let_def)
  show "of_int (round_even y) \<le> 2 * y"
  proof (cases "y - of_int \<lfloor>y\<rfloor> < 1 / 2")
    case True
    then have "round_even y = \<lfloor>y\<rfloor>" by (simp add: round_even_def Let_def)
    then show ?thesis using fl assms by linarith
  next
    case False
    then have "of_int (round_even y) \<le> of_int \<lfloor>y\<rfloor> + (1::real)"
      by (simp add: round_even_def Let_def)
    moreover have "of_int \<lfloor>y\<rfloor> + 1 / 2 \<le> y" using False by simp
    ultimately show ?thesis using r0 by linarith
  qed
qed

lemma binary64_bounds:
  assumes "0 \<le> x"
  shows "0 \<le> binary64 x" and "binary64 x \<le> 2 * x"
proof -
  define u :: real where "u = 2 powr (of_int (max (- 1022) \<lfloor>log 2 \<bar>x\<bar>\<rfloor>) - 52)"
  have u: "0 < u" by (simp add: u_def)
  have y: "0 \<le> x / u" using assms u by simp
  have b: "x \<noteq> 0 \<Longrightarrow> binary64 x = of_int (round_even (x / u)) * u"
    by (simp add: binary64_def u_def Let_def)
  show "0 \<le> binary64 x"
  proof (cases "x = 0")
    case True then show ?thesis by (simp add: binary64_def)
  next
    case False
    then show ?thesis using round_even_bounds(1) [OF y] u by (simp add: b)
  qed
  show "binary64 x \<le> 2 * x"
  proof (cases "x = 0")
    case True then show ?thesis by (simp add: binary64_def)
  next
    case False
    have "of_int (round_even (x / u)) * u \<le> (2 * (x / u)) * u"
      using round_even_bounds(2) [OF y] u by (intro mult_right_mono) simp_all
    also have "\<dots> = 2 * x" using u by simp
    finally show ?thesis using False by (simp add: b)
  qed
qed

lemma binary64_near:
  assumes lo: "2 powr of_int k \<le> \<bar>x\<bar>" and hi: "\<bar>x\<bar> < 2 powr (of_int k + 1)"
    and k: "- 1022 \<le> k"
    and z: "\<bar>x / 2 powr (of_int k - 52) - of_int z\<bar> < 1 / 2"
  shows "binary64 x = of_int z * 2 powr (of_int k - 52)"
proof -
  have x: "0 < \<bar>x\<bar>" using lo by (smt (verit) powr_gt_zero)
  then have "\<lfloor>log 2 \<bar>x\<bar>\<rfloor> = k" using lo hi by (simp add: floor_log_eq_powr_iff)
  then have "max (- 1022) \<lfloor>log 2 \<bar>x\<bar>\<rfloor> = k" using k by simp
  then show ?thesis using x round_even_near [OF z] by (simp add: binary64_def Let_def)
qed

lemma to_binary64_small:
  assumes "0 \<le> x" and "x \<le> 1"
  shows "\<exists>y. to_binary64 (Num x) = Num y \<and> 0 \<le> y \<and> y \<le> 2 * x"
proof -
  have "0 \<le> binary64 x" "binary64 x \<le> 2 * x" using binary64_bounds [OF assms(1)] by simp_all
  moreover have "(2::real) < 2 ^ 1024" by simp
  ultimately have "\<not> 2 ^ 1024 \<le> \<bar>binary64 x\<bar>" using assms(2) by linarith
  then show ?thesis using \<open>0 \<le> binary64 x\<close> \<open>binary64 x \<le> 2 * x\<close> by (simp add: Let_def)
qed

lemma binary64_1: "binary64 1 = 1"
  using binary64_near [of 0 1 "2 ^ 52"] by (simp add: powr_minus powr_realpow)

lemma binary64_100: "binary64 100 = 100"
  using binary64_near [of 6 100 "100 * 2 ^ 46"] by (simp add: powr_minus powr_realpow powr_add)


lemma binary64_absorb_1:
  assumes "0 \<le> t" and "t \<le> 1 / 2 ^ 54"
  shows "binary64 (1 + t) = 1"
proof -
  have "t * 2 ^ 52 \<le> 1 / 2 ^ 54 * 2 ^ 52" using assms(2) by (intro mult_right_mono) simp_all
  then have s: "t * 2 ^ 52 \<le> 1 / 4" by simp
  have "binary64 (1 + t) = of_int (2 ^ 52) * 2 powr (of_int 0 - 52)"
  proof (rule binary64_near)
    show "2 powr of_int 0 \<le> \<bar>1 + t\<bar>" using assms by simp
    show "\<bar>1 + t\<bar> < 2 powr (of_int 0 + 1)" using assms by simp
    show "- 1022 \<le> (0::int)" by simp
    have "(1 + t) / 2 powr (of_int 0 - 52) - of_int (2 ^ 52) = t * 2 ^ 52"
      by (simp add: powr_minus powr_realpow field_simps)
    then show "\<bar>(1 + t) / 2 powr (of_int 0 - 52) - of_int (2 ^ 52)\<bar> < 1 / 2"
      using s assms(1) by simp
  qed
  then show ?thesis by (simp add: powr_minus powr_realpow)
qed

lemma binary64_absorb_100:
  assumes "0 \<le> t" and "t \<le> 1 / 2 ^ 48"
  shows "binary64 (100 - t) = 100"
proof -
  have "t * 2 ^ 46 \<le> 1 / 2 ^ 48 * 2 ^ 46" using assms(2) by (intro mult_right_mono) simp_all
  then have s: "t * 2 ^ 46 \<le> 1 / 4" by simp
  have t1: "t \<le> 1" using assms(2) by (smt (verit) divide_le_eq_1_pos one_le_power)
  have "binary64 (100 - t) = of_int (100 * 2 ^ 46) * 2 powr (of_int 6 - 52)"
  proof (rule binary64_near)
    show "2 powr of_int 6 \<le> \<bar>100 - t\<bar>" using assms(1) t1 by (simp add: powr_realpow)
    show "\<bar>100 - t\<bar> < 2 powr (of_int 6 + 1)" using assms(1) t1 by (simp add: powr_realpow powr_add)
    show "- 1022 \<le> (6::int)" by simp
    have "(100 - t) / 2 powr (of_int 6 - 52) - of_int (100 * 2 ^ 46) = - (t * 2 ^ 46)"
      by (simp add: powr_minus powr_realpow field_simps)
    then show "\<bar>(100 - t) / 2 powr (of_int 6 - 52) - of_int (100 * 2 ^ 46)\<bar> < 1 / 2"
      using s assms(1) by simp
  qed
  then show ?thesis by (simp add: powr_minus powr_realpow)
qed

lemma to_binary64_exact: "binary64 x = x \<Longrightarrow> \<bar>x\<bar> < 2 ^ 1024 \<Longrightarrow> to_binary64 (Num x) = Num x"
  by (simp add: Let_def)

text \<open>
  C2, amended. For a debt with a balance between 0 and 10^12, an annual rate between
  0.01 and 10^4 percent, and a total payment \<open>p = m + e\<close> between 0.01 and 10^12 that is at
  least 1.001 times the first month's interest \<open>b * r\<close>: when the closed form
  \<open>ln (p / (p - b * r)) / ln (1 + r)\<close> is at least 0.001 away from the whole numbers, the
  payoff time is its ceiling. For balance 5000, rate 18.99 and payment 150 + 250 that is
  15 months, and the month-by-month simulation also takes 15 months.
\<close>

theorem payoff_time_formula:
  "(0 \<le> b \<and> b \<le> 10 ^ 12 \<and> 1 / 100 \<le> a \<and> a \<le> 10 ^ 4
      \<and> 1 / 100 \<le> m + e \<and> m + e \<le> 10 ^ 12
      \<and> (1 + 1 / 1000) * (b * (a / 100 / 12)) \<le> m + e
      \<and> 1 / 1000 \<le> frac (spec_months b a (m + e))
      \<and> frac (spec_months b a (m + e)) \<le> 999 / 1000 \<longrightarrow>
    calculatePayoffTime
      \<lparr>name = n, debt_type = t, balance = Num b, interestRate = Num a, minimumPayment = Num m\<rparr>
      (Num e)
    = Num (of_int \<lceil>spec_months b a (m + e)\<rceil>))
   \<and> calculatePayoffTime
       \<lparr>name = ''Credit Card 1'', debt_type = credit_card, balance = Num 5000,
        interestRate = Num 18.99, minimumPayment = Num 150\<rparr> (Num 250) = Num 15
   \<and> spec_amortization_simulation 20 5000 (18.99 / 100 / 12) (150 + 250) = Some 15"
proof (intro conjI impI)
  assume h: "0 \<le> b \<and> b \<le> 10 ^ 12 \<and> 1 / 100 \<le> a \<and> a \<le> 10 ^ 4
      \<and> 1 / 100 \<le> m + e \<and> m + e \<le> 10 ^ 12
      \<and> (1 + 1 / 1000) * (b * (a / 100 / 12)) \<le> m + e
      \<and> 1 / 1000 \<le> frac (spec_months b a (m + e))
      \<and> frac (spec_months b a (m + e)) \<le> 999 / 1000"
  define I where "I = b * (a / 100 / 12)"
  from h have a: "0 < a" and b: "0 \<le> b" and p: "0 < m + e"
    and hp: "(1 + 1 / 1000) * I \<le> m + e" unfolding I_def by linarith+
  have r: "0 < a / 100 / 12" using a by simp
  have I: "0 \<le> I" using r b by (simp add: I_def)
  have "I < m + e"
  proof (cases "I = 0")
    case True
    then show ?thesis using p by simp
  next
    case False
    then have "0 < I" using I by simp
    then have "1 * I < (1 + 1 / 1000) * I" by (intro mult_strict_right_mono) simp_all
    then show ?thesis using hp by linarith
  qed
  then have pb: "b * (a / 100 / 12) < m + e" by (simp only: I_def)
  show "calculatePayoffTime
      \<lparr>name = n, debt_type = t, balance = Num b, interestRate = Num a, minimumPayment = Num m\<rparr>
      (Num e)
    = Num (of_int \<lceil>spec_months b a (m + e)\<rceil>)"
    by (rule payoff_time_convergent [OF r pb b])
next
  have "\<lceil>spec_months 5000 18.99 400\<rceil> = 15"
    using credit_card_months_bounds by (intro ceiling_unique) simp_all
  then show "calculatePayoffTime
       \<lparr>name = ''Credit Card 1'', debt_type = credit_card, balance = Num 5000,
        interestRate = Num 18.99, minimumPayment = Num 150\<rparr> (Num 250) = Num 15"
    using payoff_time_convergent [of "18.99" 5000 150 250 "''Credit Card 1''" credit_card]
    by simp
next
  show "spec_amortization_simulation 20 5000 (18.99 / 100 / 12) (150 + 250) = Some 15"
    by (simp add: numeral_eq_Suc)
qed

theorem payoff_time_formula_witness:
  "(0::real) \<le> 5000 \<and> (5000::real) \<le> 10 ^ 12 \<and> (1::real) / 100 \<le> 18.99
   \<and> (18.99::real) \<le> 10 ^ 4 \<and> (1::real) / 100 \<le> 150 + 250 \<and> (150::real) + 250 \<le> 10 ^ 12
   \<and> (1 + 1 / 1000) * ((5000::real) * (18.99 / 100 / 12)) \<le> 150 + 250
   \<and> 1 / 1000 \<le> frac (spec_months 5000 18.99 (150 + 250))
   \<and> frac (spec_months 5000 18.99 (150 + 250)) \<le> 999 / 1000
   \<and> calculatePayoffTime
       \<lparr>name = ''Credit Card 1'', debt_type = credit_card, balance = Num 5000,
        interestRate = Num 18.99, minimumPayment = Num 150\<rparr> (Num 250)
     = Num (of_int \<lceil>spec_months 5000 18.99 (150 + 250)\<rceil>)"
proof -
  have "\<lfloor>spec_months 5000 18.99 400\<rfloor> = 14"
    using credit_card_months_bounds by (intro floor_unique) simp_all
  then have f: "frac (spec_months 5000 18.99 400) = spec_months 5000 18.99 400 - 14"
    by (simp add: frac_def)
  have lo: "1 / 1000 \<le> frac (spec_months 5000 18.99 400)"
    and hi: "frac (spec_months 5000 18.99 400) \<le> 999 / 1000"
    unfolding f using credit_card_months_bounds by simp_all
  show ?thesis
    using payoff_time_formula [of 5000 "18.99" 150 250 "''Credit Card 1''" credit_card] lo hi
    by simp
qed

text \<open>
  The claim as written fails where the rounding takes over: at balance 1000 and payment
  100, with a positive annual rate of \<open>1 / 2 ^ 80\<close> percent, the rounded \<open>1 + r\<close> is 1 and
  the rounded \<open>p - b * r\<close> is \<open>p\<close>, so the quotient is \<open>0 / 0\<close> and the result is NaN.
\<close>

theorem payoff_time_rounding_counterexample:
  "0 < (1 / 2 ^ 80 :: real) / 100 / 12
   \<and> (1000::real) * (1 / 2 ^ 80 / 100 / 12) < 100 + 0
   \<and> calculatePayoffTime_binary64
       \<lparr>name = ''Loan'', debt_type = personal_loan, balance = Num 1000,
        interestRate = Num (1 / 2 ^ 80), minimumPayment = Num 100\<rparr> (Num 0) = NaN
   \<and> NaN \<noteq> Num (of_int \<lceil>spec_months 1000 (1 / 2 ^ 80) (100 + 0)\<rceil>)"
proof -
  define a :: real where "a = 1 / 2 ^ 80"
  have a0: "0 \<le> a" and a1: "a \<le> 1 / 2 ^ 80" by (simp_all add: a_def)
  obtain r1 where r1: "to_binary64 (Num (a / 100)) = Num r1" "0 \<le> r1" "r1 \<le> 2 * (a / 100)"
    using to_binary64_small [of "a / 100"] a0 a1 by auto
  have "r1 / 12 \<le> 1" using r1(3) a1 by simp
  then obtain r2 where r2: "to_binary64 (Num (r1 / 12)) = Num r2" "0 \<le> r2" "r2 \<le> 2 * (r1 / 12)"
    using to_binary64_small [of "r1 / 12"] r1(2) by auto
  have r2a: "r2 \<le> a / 300" using r2(3) r1(3) by simp
  have "1000 * r2 \<le> 1" using r2a a1 by simp
  then obtain i where i: "to_binary64 (Num (1000 * r2)) = Num i" "0 \<le> i" "i \<le> 2 * (1000 * r2)"
    using to_binary64_small [of "1000 * r2"] r2(2) by auto
  have ia: "i \<le> 7 * a" using i(3) r2a a0 by linarith
  have i48: "i \<le> 1 / 2 ^ 48" using ia a1 by simp
  have r54: "r2 \<le> 1 / 2 ^ 54" using r2a a1 by simp
  have rate: "to_binary64 (js_div (to_binary64 (js_div (Num a) (Num 100))) (Num 12)) = Num r2"
    by (simp add: r1(1) r2(1) del: to_binary64.simps)
  have pay: "to_binary64 (js_add (Num 100) (Num 0)) = Num 100"
    using to_binary64_exact [OF binary64_100] by simp
  have int: "to_binary64 (js_mul (Num 1000) (Num r2)) = Num i"
    by (simp add: i(1) del: to_binary64.simps)
  have diff: "to_binary64 (js_sub (Num 100) (Num i)) = Num 100"
    using to_binary64_exact [of "100 - i"] binary64_absorb_100 [OF i(2) i48]
    by (simp add: js_sub_def Let_def)
  have quot: "to_binary64 (js_div (Num 100) (Num 100)) = Num 1"
    using to_binary64_exact [OF binary64_1] by simp
  have zero: "to_binary64 (Num 0) = Num 0" by (simp add: binary64_def)
  have one: "to_binary64 (Num (1 + r2)) = Num 1"
    using binary64_absorb_1 [OF r2(2) r54] by (simp add: Let_def)
  have guard: "\<not> js_le (Num 100) (Num i)" using i48 by simp
  have "calculatePayoffTime_binary64
       \<lparr>name = ''Loan'', debt_type = personal_loan, balance = Num 1000,
        interestRate = Num a, minimumPayment = Num 100\<rparr> (Num 0) = NaN"
    unfolding calculatePayoffTime_binary64_def Let_def debt.simps rate pay int diff quot
    using guard by (simp add: zero one del: to_binary64.simps(1))
  then show ?thesis by (simp add: a_def)
qed

text \<open>
  C3, amended. For a debt at rate 0 with a finite balance and a total payment
  \<open>p = m + e \<le> 0\<close>, the payoff time is the number \<^verbatim>\<open>Infinity\<close>, as for any payment that
  does not exceed the interest; no failure is raised.
\<close>

theorem payoff_time_zero_rate_no_payment:
  "m + e \<le> 0 \<Longrightarrow>
   calculatePayoffTime
     \<lparr>name = n, debt_type = t, balance = Num b, interestRate = Num 0, minimumPayment = Num m\<rparr>
     (Num e) = PosInfinity"
  by (simp add: calculatePayoffTime_def)

theorem payoff_time_zero_rate_no_payment_witness:
  "(0::real) + 0 \<le> 0 \<and>
   calculatePayoffTime
     \<lparr>name = ''Family Loan'', debt_type = personal_loan, balance = Num 1000,
      interestRate = Num 0, minimumPayment = Num 0\<rparr> (Num 0) = PosInfinity"
  using payoff_time_zero_rate_no_payment [of 0 0 "''Family Loan''" personal_loan 1000]
  by simp

text \<open>
  The claim as written fails on both counts: at rate 0 a balance of 1000 paid at 100 a
  month gives NaN, not \<open>ceil (1000 / 100) = 10\<close>, and a payment of 0 gives the number
  \<^verbatim>\<open>Infinity\<close>.
\<close>

theorem payoff_time_zero_rate_counterexample:
  "calculatePayoffTime
     \<lparr>name = ''Family Loan'', debt_type = personal_loan, balance = Num 1000,
      interestRate = Num 0, minimumPayment = Num 100\<rparr> (Num 0) = NaN
   \<and> NaN \<noteq> Num (of_int \<lceil>(1000::real) / (100 + 0)\<rceil>)
   \<and> calculatePayoffTime
       \<lparr>name = ''Family Loan'', debt_type = personal_loan, balance = Num 1000,
        interestRate = Num 0, minimumPayment = Num 0\<rparr> (Num 0) = PosInfinity"
  by (simp add: calculatePayoffTime_def js_sub_def)

section \<open>Properties of the ordering\<close>

text \<open>Facts about numbers that the comparators need.\<close>

lemma js_sub_positive_iff:
  "u \<noteq> NaN \<Longrightarrow> v \<noteq> NaN \<Longrightarrow> js_gt (js_sub u v) (Num 0) = (\<not> js_le u v)"
  by (cases u; cases v) (auto simp add: js_gt_def js_sub_def)

lemma js_sub_self_not_positive: "\<not> js_gt (js_sub v v) (Num 0)"
  by (cases v) (simp_all add: js_gt_def js_sub_def)

lemma js_le_total: "u \<noteq> NaN \<Longrightarrow> v \<noteq> NaN \<Longrightarrow> js_le u v \<or> js_le v u"
  by (cases u; cases v) auto

lemma js_le_trans: "js_le u v \<Longrightarrow> js_le v w \<Longrightarrow> js_le u w"
  by (cases u; cases v; cases w) auto

lemma mset_insert_sorted: "mset (insert_sorted cmp x ys) = add_mset x (mset ys)"
  by (induction ys) simp_all

lemma mset_array_sort: "mset (array_sort cmp xs) = mset xs"
  by (induction xs) (simp_all add: array_sort_def mset_insert_sorted)

lemma set_insert_sorted: "set (insert_sorted cmp x ys) = insert x (set ys)"
  by (induction ys) auto

lemma set_array_sort: "set (array_sort cmp xs) = set xs"
  by (induction xs) (simp_all add: array_sort_def set_insert_sorted)

lemma filter_insert_sorted:
  assumes "\<And>y. y \<in> set ys \<Longrightarrow> P x \<Longrightarrow> P y \<Longrightarrow> \<not> js_gt (cmp x y) (Num 0)"
  shows "filter P (insert_sorted cmp x ys) = (if P x then x # filter P ys else filter P ys)"
  using assms by (induction ys) auto

lemma filter_array_sort:
  assumes "\<And>x y. P x \<Longrightarrow> P y \<Longrightarrow> \<not> js_gt (cmp x y) (Num 0)"
  shows "filter P (array_sort cmp xs) = filter P xs"
proof (induction xs)
  case Nil
  show ?case by (simp add: array_sort_def)
next
  case (Cons x xs)
  have "filter P (insert_sorted cmp x (array_sort cmp xs))
        = (if P x then x # filter P (array_sort cmp xs) else filter P (array_sort cmp xs))"
    by (rule filter_insert_sorted) (rule assms)
  then show ?case using Cons by (simp add: array_sort_def)
qed

lemma sorted_insert_sorted:
  assumes gt: "\<And>a b. a \<in> S \<Longrightarrow> b \<in> S \<Longrightarrow> js_gt (cmp a b) (Num 0) = (\<not> R a b)"
    and total: "\<And>a b. a \<in> S \<Longrightarrow> b \<in> S \<Longrightarrow> R a b \<or> R b a"
    and trans: "\<And>a b c. R a b \<Longrightarrow> R b c \<Longrightarrow> R a c"
    and x: "x \<in> S" and ys: "set ys \<subseteq> S" and sorted: "sorted_wrt R ys"
  shows "sorted_wrt R (insert_sorted cmp x ys)"
  using ys sorted
proof (induction ys)
  case Nil
  show ?case by simp
next
  case (Cons y ys)
  have y: "y \<in> S" using Cons.prems by simp
  show ?case
  proof (cases "R x y")
    case True
    then have "\<forall>z\<in>set ys. R x z" using Cons.prems trans by auto
    with True Cons.prems show ?thesis using gt [OF x y] by simp
  next
    case False
    then have "R y x" using total [OF x y] by simp
    with False Cons show ?thesis using gt [OF x y] by (simp add: set_insert_sorted)
  qed
qed

lemma sorted_array_sort:
  assumes gt: "\<And>a b. a \<in> S \<Longrightarrow> b \<in> S \<Longrightarrow> js_gt (cmp a b) (Num 0) = (\<not> R a b)"
    and total: "\<And>a b. a \<in> S \<Longrightarrow> b \<in> S \<Longrightarrow> R a b \<or> R b a"
    and trans: "\<And>a b c. R a b \<Longrightarrow> R b c \<Longrightarrow> R a c"
    and xs: "set xs \<subseteq> S"
  shows "sorted_wrt R (array_sort cmp xs)"
  using xs
proof (induction xs)
  case Nil
  show ?case by (simp add: array_sort_def)
next
  case (Cons x xs)
  have "sorted_wrt R (insert_sorted cmp x (array_sort cmp xs))"
  proof (rule sorted_insert_sorted [where S = S])
    show "x \<in> S" using Cons.prems by simp
    show "set (array_sort cmp xs) \<subseteq> S" using Cons.prems by (simp add: set_array_sort)
    show "sorted_wrt R (array_sort cmp xs)" using Cons by simp
  qed (fact gt, fact total, fact trans)
  then show ?case by (simp add: array_sort_def)
qed

lemma avalanche_sorted:
  assumes "\<forall>d\<in>set ds. \<not> isNaN (interestRate d)"
  shows "sorted_wrt (\<lambda>a b. js_ge (interestRate a) (interestRate b)) (sortedDebts avalanche ds)"
  unfolding sortedDebts_def
proof (rule sorted_array_sort [where S = "{d. interestRate d \<noteq> NaN}"])
  fix a b :: debt
  assume "a \<in> {d. interestRate d \<noteq> NaN}" "b \<in> {d. interestRate d \<noteq> NaN}"
  then show "js_gt (compareDebts avalanche a b) (Num 0) = (\<not> js_ge (interestRate a) (interestRate b))"
    by (simp add: compareDebts_def js_sub_positive_iff js_ge_def)
next
  fix a b :: debt
  assume "a \<in> {d. interestRate d \<noteq> NaN}" "b \<in> {d. interestRate d \<noteq> NaN}"
  then show "js_ge (interestRate a) (interestRate b) \<or> js_ge (interestRate b) (interestRate a)"
    using js_le_total [of "interestRate a" "interestRate b"] by (auto simp add: js_ge_def)
next
  fix a b c :: debt
  assume "js_ge (interestRate a) (interestRate b)" "js_ge (interestRate b) (interestRate c)"
  then show "js_ge (interestRate a) (interestRate c)"
    unfolding js_ge_def by (metis js_le_trans)
next
  show "set ds \<subseteq> {d. interestRate d \<noteq> NaN}" using assms by (auto simp add: isNaN_def)
qed

lemma snowball_sorted:
  assumes "\<forall>d\<in>set ds. \<not> isNaN (balance d)"
  shows "sorted_wrt (\<lambda>a b. js_le (balance a) (balance b)) (sortedDebts snowball ds)"
  unfolding sortedDebts_def
proof (rule sorted_array_sort [where S = "{d. balance d \<noteq> NaN}"])
  fix a b :: debt
  assume "a \<in> {d. balance d \<noteq> NaN}" "b \<in> {d. balance d \<noteq> NaN}"
  then show "js_gt (compareDebts snowball a b) (Num 0) = (\<not> js_le (balance a) (balance b))"
    by (simp add: compareDebts_def js_sub_positive_iff)
next
  fix a b :: debt
  assume "a \<in> {d. balance d \<noteq> NaN}" "b \<in> {d. balance d \<noteq> NaN}"
  then show "js_le (balance a) (balance b) \<or> js_le (balance b) (balance a)"
    using js_le_total [of "balance a" "balance b"] by auto
next
  fix a b c :: debt
  assume "js_le (balance a) (balance b)" "js_le (balance b) (balance c)"
  then show "js_le (balance a) (balance c)" by (rule js_le_trans)
next
  show "set ds \<subseteq> {d. balance d \<noteq> NaN}" using assms by (auto simp add: isNaN_def)
qed

lemma avalanche_stable:
  "filter (\<lambda>d. interestRate d = v) (sortedDebts avalanche ds) = filter (\<lambda>d. interestRate d = v) ds"
  unfolding sortedDebts_def
  by (rule filter_array_sort) (simp add: compareDebts_def js_sub_self_not_positive)

lemma snowball_stable:
  "filter (\<lambda>d. balance d = v) (sortedDebts snowball ds) = filter (\<lambda>d. balance d = v) ds"
  unfolding sortedDebts_def
  by (rule filter_array_sort) (simp add: compareDebts_def js_sub_self_not_positive)


text \<open>
  C8. Under the avalanche strategy, when no interest rate is NaN, the debts come out by
  interest rate, highest first, and debts with the same rate keep their input order; under
  the snowball strategy, when no balance is NaN, they come out by balance, lowest first,
  and debts with the same balance keep their input order. The result is always a
  rearrangement of the input. The rates 18.99, 4.5, 5.2 of the fixture come out as 18.99,
  5.2, 4.5 and its balances 5000, 28000, 15000 as 5000, 15000, 28000.
\<close>

theorem debts_sorted_by_strategy:
  "((\<forall>d\<in>set ds. \<not> isNaN (interestRate d)) \<longrightarrow>
      sorted_wrt (\<lambda>a b. js_ge (interestRate a) (interestRate b)) (sortedDebts avalanche ds)
      \<and> filter (\<lambda>d. interestRate d = v) (sortedDebts avalanche ds)
          = filter (\<lambda>d. interestRate d = v) ds)
   \<and> ((\<forall>d\<in>set ds. \<not> isNaN (balance d)) \<longrightarrow>
      sorted_wrt (\<lambda>a b. js_le (balance a) (balance b)) (sortedDebts snowball ds)
      \<and> filter (\<lambda>d. balance d = w) (sortedDebts snowball ds)
          = filter (\<lambda>d. balance d = w) ds)
   \<and> mset (sortedDebts s ds) = mset ds
   \<and> map interestRate (sortedDebts avalanche mockDebts) = [Num 18.99, Num 5.2, Num 4.5]
   \<and> map balance (sortedDebts snowball mockDebts) = [Num 5000, Num 15000, Num 28000]"
proof (intro conjI impI)
  show "map interestRate (sortedDebts avalanche mockDebts) = [Num 18.99, Num 5.2, Num 4.5]"
    by (simp add: mockDebts_def sortedDebts_def array_sort_def compareDebts_def js_sub_def
        js_gt_def)
  show "map balance (sortedDebts snowball mockDebts) = [Num 5000, Num 15000, Num 28000]"
    by (simp add: mockDebts_def sortedDebts_def array_sort_def compareDebts_def js_sub_def
        js_gt_def)
  show "mset (sortedDebts s ds) = mset ds"
    by (simp add: sortedDebts_def mset_array_sort)
qed (simp_all add: avalanche_sorted snowball_sorted avalanche_stable snowball_stable)

text \<open>Two debts at the same rate and the same balance, behind and before a third one.\<close>

theorem debts_sorted_by_strategy_witness:
  "sorted_wrt (\<lambda>a b. js_ge (interestRate a) (interestRate b))
     (sortedDebts avalanche
        [\<lparr>name = ''A'', debt_type = other_debt, balance = Num 100, interestRate = Num 5,
          minimumPayment = Num 10\<rparr>,
         \<lparr>name = ''B'', debt_type = other_debt, balance = Num 100, interestRate = Num 5,
          minimumPayment = Num 20\<rparr>,
         \<lparr>name = ''C'', debt_type = other_debt, balance = Num 50, interestRate = Num 7,
          minimumPayment = Num 30\<rparr>])
   \<and> map name (filter (\<lambda>d. interestRate d = Num 5)
       (sortedDebts avalanche
        [\<lparr>name = ''A'', debt_type = other_debt, balance = Num 100, interestRate = Num 5,
          minimumPayment = Num 10\<rparr>,
         \<lparr>name = ''B'', debt_type = other_debt, balance = Num 100, interestRate = Num 5,
          minimumPayment = Num 20\<rparr>,
         \<lparr>name = ''C'', debt_type = other_debt, balance = Num 50, interestRate = Num 7,
          minimumPayment = Num 30\<rparr>])) = [''A'', ''B'']"
  using debts_sorted_by_strategy
    [of "[\<lparr>name = ''A'', debt_type = other_debt, balance = Num 100, interestRate = Num 5,
          minimumPayment = Num 10\<rparr>,
         \<lparr>name = ''B'', debt_type = other_debt, balance = Num 100, interestRate = Num 5,
          minimumPayment = Num 20\<rparr>,
         \<lparr>name = ''C'', debt_type = other_debt, balance = Num 50, interestRate = Num 7,
          minimumPayment = Num 30\<rparr>]" "Num 5" "Num 100" avalanche]
  by (simp add: isNaN_def)

section \<open>Properties of the payoff plan\<close>

lemma plan_debts: "map plan_debt (payoffPlan s ds) = sortedDebts s ds"
proof -
  have "map plan_debt (payoffPlan s ds) = map snd (enumerate 0 (sortedDebts s ds))"
    unfolding payoffPlan_def map_map
    by (rule map_cong) (auto simp add: plan_entry_def Let_def)
  then show ?thesis by simp
qed

lemma plan_orders: "map payoffOrder (payoffPlan s ds) = [1..<Suc (length (sortedDebts s ds))]"
proof -
  have "map payoffOrder (payoffPlan s ds) = map (Suc \<circ> fst) (enumerate 0 (sortedDebts s ds))"
    unfolding payoffPlan_def map_map
    by (rule map_cong) (auto simp add: plan_entry_def Let_def)
  also have "\<dots> = map Suc (map fst (enumerate 0 (sortedDebts s ds)))"
    by (simp only: map_map)
  also have "\<dots> = [1..<Suc (length (sortedDebts s ds))]"
    by (simp add: map_Suc_upt)
  finally show ?thesis .
qed

lemma later_extras:
  "0 < n \<Longrightarrow> map (\<lambda>(index, d). plan_extraPayment (plan_entry d index)) (enumerate n xs)
     = replicate (length xs) (Num 0)"
  by (induction xs arbitrary: n) (simp_all add: plan_entry_def Let_def)

lemma plan_extras:
  "map plan_extraPayment (payoffPlan s ds)
   = (case sortedDebts s ds of [] \<Rightarrow> [] | d # rest \<Rightarrow> remainingExtra # replicate (length rest) (Num 0))"
proof (cases "sortedDebts s ds")
  case Nil
  then show ?thesis by (simp add: payoffPlan_def)
next
  case (Cons d rest)
  have "map plan_extraPayment (payoffPlan s ds)
        = map (\<lambda>(index, d). plan_extraPayment (plan_entry d index)) (enumerate 0 (d # rest))"
    by (simp add: payoffPlan_def Cons case_prod_unfold comp_def)
  also have "\<dots> = remainingExtra # map (\<lambda>(index, d). plan_extraPayment (plan_entry d index)) (enumerate (Suc 0) rest)"
    by (simp add: plan_entry_def Let_def)
  finally show ?thesis using Cons by (simp add: later_extras)
qed

lemma sum_zeros: "foldl js_add (Num a) (replicate n (Num 0)) = Num a"
  by (induction n) simp_all


lemma length_sortedDebts: "length (sortedDebts s ds) = length ds"
  using mset_array_sort [of "compareDebts s" ds]
  by (metis sortedDebts_def size_mset)

text \<open>
  C10, amended. For every debt list and either strategy the plan lists the input debts,
  each once, in sorted order, and numbers them 1 to n. For a list that is not empty the
  first entry carries the whole extra budget and every other entry carries 0, so the
  assigned extra payments add up to the budget; for the empty list the plan is empty and
  nothing is assigned.
\<close>

theorem payoff_plan_properties:
  "mset (map plan_debt (payoffPlan s ds)) = mset ds
   \<and> map plan_debt (payoffPlan s ds) = sortedDebts s ds
   \<and> map payoffOrder (payoffPlan s ds) = [1..<Suc (length ds)]
   \<and> (ds \<noteq> [] \<longrightarrow>
        map plan_extraPayment (payoffPlan s ds)
          = extraPayment # replicate (length ds - 1) (Num 0)
        \<and> sum_numbers (map plan_extraPayment (payoffPlan s ds)) = extraPayment)
   \<and> (ds = [] \<longrightarrow> payoffPlan s ds = [])"
proof (intro conjI impI)
  show "mset (map plan_debt (payoffPlan s ds)) = mset ds"
    by (simp add: plan_debts sortedDebts_def mset_array_sort)
  show "map plan_debt (payoffPlan s ds) = sortedDebts s ds"
    by (rule plan_debts)
  show "map payoffOrder (payoffPlan s ds) = [1..<Suc (length ds)]"
    by (simp only: plan_orders length_sortedDebts)
next
  assume "ds \<noteq> []"
  then have "sortedDebts s ds \<noteq> []"
    using length_sortedDebts [of s ds] by auto
  then obtain d rest where dr: "sortedDebts s ds = d # rest"
    by (cases "sortedDebts s ds") auto
  then have len: "length rest = length ds - 1"
    using length_sortedDebts [of s ds] by simp
  show extras: "map plan_extraPayment (payoffPlan s ds)
      = extraPayment # replicate (length ds - 1) (Num 0)"
    by (simp add: plan_extras dr len remainingExtra_def)
  show "sum_numbers (map plan_extraPayment (payoffPlan s ds)) = extraPayment"
    unfolding extras by (simp add: sum_numbers_def extraPayment_def sum_zeros)
next
  assume "ds = []"
  then show "payoffPlan s ds = []"
    by (simp add: payoffPlan_def sortedDebts_def array_sort_def)
qed

theorem payoff_plan_properties_witness:
  "mockDebts \<noteq> []
   \<and> map payoffOrder (payoffPlan avalanche mockDebts) = [1, 2, 3]
   \<and> map plan_extraPayment (payoffPlan avalanche mockDebts) = [Num 500, Num 0, Num 0]
   \<and> sum_numbers (map plan_extraPayment (payoffPlan avalanche mockDebts)) = Num 500"
proof -
  have ne: "mockDebts \<noteq> []" and len: "length mockDebts = 3"
    by (simp_all add: mockDebts_def)
  have upt: "[1..<Suc 3] = [1, 2, 3]" by (simp add: upt_rec)
  show ?thesis
    using payoff_plan_properties [of avalanche mockDebts] ne
    by (simp add: len upt extraPayment_def numeral_3_eq_3 sum_numbers_def)
qed

text \<open>
  The claim as written fails for the empty list: the plan is empty, the assigned extra
  payments add up to 0, and the budget is 500.
\<close>

theorem payoff_plan_empty_counterexample:
  "sum_numbers (map plan_extraPayment (payoffPlan snowball [])) = Num 0
   \<and> extraPayment = Num 500
   \<and> sum_numbers (map plan_extraPayment (payoffPlan snowball [])) \<noteq> extraPayment"
  by (simp add: payoffPlan_def sortedDebts_def array_sort_def sum_numbers_def extraPayment_def)

section \<open>Properties of the growth projection\<close>

lemma Math_pow_finite: "Math_pow (Num x) n = Num (x ^ n)"
  by (cases n) simp_all

lemma Math_round_eq:
  "of_int z \<le> x + 1 / 2 \<Longrightarrow> x + 1 / 2 < of_int z + 1 \<Longrightarrow> Math_round (Num x) = Num (of_int z)"
  by (simp add: floor_unique)

text \<open>The first year of the fixture, at its contribution of 2000 and at 2500.\<close>

lemma mock_future_value_year_1: "calculateFutureValue mockFIREMetrics 1 = Num 85906"
proof -
  have "Math_round (Num (57000 * (1 + 7 / 100 / 12) ^ 12
          + 2000 * (((1 + 7 / 100 / 12) ^ 12 - 1) / (7 / 100 / 12)))) = Num (of_int 85906)"
    by (rule Math_round_eq) (simp_all add: power_divide)
  then show ?thesis
    by (simp add: calculateFutureValue_def mockFIREMetrics_def Math_pow_finite js_sub_def)
qed

lemma mock_future_value_year_1_extra:
  "calculateFutureValue
     (mockFIREMetrics\<lparr>monthlyContribution :=
        js_add (monthlyContribution mockFIREMetrics) (Num 500)\<rparr>) 1 = Num 92102"
proof -
  have "Math_round (Num (57000 * (1 + 7 / 100 / 12) ^ 12
          + 2500 * (((1 + 7 / 100 / 12) ^ 12 - 1) / (7 / 100 / 12)))) = Num (of_int 92102)"
    by (rule Math_round_eq) (simp_all add: power_divide)
  then show ?thesis
    by (simp add: calculateFutureValue_def mockFIREMetrics_def Math_pow_finite js_sub_def)
qed

text \<open>The loop with a finite bound \<open>b\<close> pushes the entries of the years 0 to \<open>floor b\<close>.\<close>

lemma projection_loop_finite:
  assumes b: "js_add (yearsToRetirement m) (Num 5) = Num b"
  shows "y \<le> nat (\<lfloor>b\<rfloor> + 1) \<Longrightarrow>
     projection_loop m y acc = Some (acc @ map (projection_entry m) [y..<nat (\<lfloor>b\<rfloor> + 1)])"
proof (induction "nat (\<lfloor>b\<rfloor> + 1) - y" arbitrary: y acc)
  case 0
  then have "y = nat (\<lfloor>b\<rfloor> + 1)" by simp
  then have "\<not> real y \<le> b" by (simp add: le_floor_iff) linarith
  then show ?case using \<open>y = nat (\<lfloor>b\<rfloor> + 1)\<close>
    by (subst projection_loop.simps) (simp add: b)
next
  case (Suc k)
  then have lt: "y < nat (\<lfloor>b\<rfloor> + 1)" by simp
  then have "int y \<le> \<lfloor>b\<rfloor>" by simp
  then have le: "real y \<le> b" by (simp add: le_floor_iff)
  have "projection_loop m (Suc y) (acc @ [projection_entry m y])
        = Some ((acc @ [projection_entry m y]) @ map (projection_entry m) [Suc y..<nat (\<lfloor>b\<rfloor> + 1)])"
    using Suc lt by (intro Suc.hyps(1)) simp_all
  then show ?case using le lt
    by (subst projection_loop.simps) (simp add: b upt_conv_Cons)
qed






text \<open>
  C7, amended. With a finite number \<open>b\<close> of years to retirement the projection has the
  entries of the years 0 to \<open>floor (b + 5)\<close>, and in the entry of year \<open>y\<close> the path with
  the extra 500 a month is the current path plus \<open>500 * 12 * y * 1.07 ^ y\<close>: an addition
  to the rounded baseline value, not the future-value formula at a higher contribution.
\<close>

theorem projection_with_extra:
  "yearsToRetirement m = Num b \<Longrightarrow>
   projectionData m = Some (map (projection_entry m) [0..<nat (\<lfloor>b + 5\<rfloor> + 1)])
   \<and> currentPath (projection_entry m y) = calculateFutureValue m y
   \<and> withExtra (projection_entry m y)
       = js_add (calculateFutureValue m y) (Num (500 * 12 * real y * 1.07 ^ y))"
proof (intro conjI)
  assume "yearsToRetirement m = Num b"
  then show "projectionData m = Some (map (projection_entry m) [0..<nat (\<lfloor>b + 5\<rfloor> + 1)])"
    unfolding projectionData_def
    using projection_loop_finite [of m "b + 5" 0 "[]"] by simp
qed (simp_all add: projection_entry_def Math_pow_finite)

theorem projection_with_extra_witness:
  "yearsToRetirement mockFIREMetrics = Num 23
   \<and> (\<exists>ps. projectionData mockFIREMetrics = Some ps \<and> length ps = 29)
   \<and> withExtra (projection_entry mockFIREMetrics 1)
       = js_add (calculateFutureValue mockFIREMetrics 1) (Num 6420)"
proof -
  have y: "yearsToRetirement mockFIREMetrics = Num 23"
    by (simp add: mockFIREMetrics_def)
  have n: "nat (\<lfloor>(23::real) + 5\<rfloor> + 1) = 29" by simp
  from projection_with_extra [OF y, of 1]
  have "projectionData mockFIREMetrics = Some (map (projection_entry mockFIREMetrics) [0..<29])"
    and "withExtra (projection_entry mockFIREMetrics 1)
         = js_add (calculateFutureValue mockFIREMetrics 1) (Num (500 * 12 * real 1 * 1.07 ^ 1))"
    unfolding n by blast+
  then show ?thesis using y by simp
qed

text \<open>
  The claim as written fails: at year 1 of the fixture the path with the extra 500 is
  85906 + 6420 = 92326, and the future value at a contribution of 2500 is 92102.
\<close>

theorem projection_with_extra_counterexample:
  "withExtra (projection_entry mockFIREMetrics 1) = Num 92326
   \<and> calculateFutureValue
       (mockFIREMetrics\<lparr>monthlyContribution :=
          js_add (monthlyContribution mockFIREMetrics) (Num 500)\<rparr>) 1 = Num 92102
   \<and> withExtra (projection_entry mockFIREMetrics 1)
       \<noteq> calculateFutureValue
           (mockFIREMetrics\<lparr>monthlyContribution :=
              js_add (monthlyContribution mockFIREMetrics) (Num 500)\<rparr>) 1"
  using mock_future_value_year_1 mock_future_value_year_1_extra
  by (simp add: projection_entry_def)

section \<open>Properties of the goal funding\<close>

text \<open>
  C5, amended. The monthly amount of a goal is \<open>(target - current) / max 1 (days / 30)\<close>,
  with the days counted from the clock reading to the target date. The remaining amount
  is not clamped: the result is the claim's \<open>max 0 (target - current) / ...\<close>, and is not
  negative, when the current amount does not exceed the target. When the deadline is
  past or within 30 days the divisor is 1.
\<close>

theorem monthly_needed_formula:
  "calculateMonthlyNeeded dd now
     \<lparr>goal_id = i, goal_name = n, targetAmount = Num t, currentAmount = Num c,
      targetDate = td, goal_priority = pr\<rparr>
     = Num ((t - c) / max 1 (of_int (dd td now) / 30))
   \<and> (c \<le> t \<longrightarrow>
        calculateMonthlyNeeded dd now
          \<lparr>goal_id = i, goal_name = n, targetAmount = Num t, currentAmount = Num c,
           targetDate = td, goal_priority = pr\<rparr>
          = Num (max 0 (t - c) / max 1 (of_int (dd td now) / 30))
        \<and> js_le (Num 0)
            (calculateMonthlyNeeded dd now
               \<lparr>goal_id = i, goal_name = n, targetAmount = Num t, currentAmount = Num c,
                targetDate = td, goal_priority = pr\<rparr>))
   \<and> (dd td now \<le> 30 \<longrightarrow>
        calculateMonthlyNeeded dd now
          \<lparr>goal_id = i, goal_name = n, targetAmount = Num t, currentAmount = Num c,
           targetDate = td, goal_priority = pr\<rparr> = Num (t - c))"
proof -
  have eq: "calculateMonthlyNeeded dd now
     \<lparr>goal_id = i, goal_name = n, targetAmount = Num t, currentAmount = Num c,
      targetDate = td, goal_priority = pr\<rparr>
     = Num ((t - c) / max 1 (of_int (dd td now) / 30))"
    by (simp add: calculateMonthlyNeeded_def js_sub_def max_def)
  have pos: "0 < max 1 (real_of_int (dd td now) / 30)" by simp
  have "c \<le> t \<Longrightarrow> 0 \<le> (t - c) / max 1 (real_of_int (dd td now) / 30)"
    using pos by (simp del: max_less_iff_conj)
  moreover have "dd td now \<le> 30 \<Longrightarrow> max 1 (real_of_int (dd td now) / 30) = 1"
    by (simp add: max_def)
  ultimately show ?thesis unfolding eq by (simp add: max_def)
qed

text \<open>
  The fixture's emergency fund (18000, of which 8000 are saved) 360 days before its
  date, and the same goal five days after it.
\<close>

theorem monthly_needed_formula_witness:
  "(8000::real) \<le> 18000
   \<and> calculateMonthlyNeeded full_days 0
       \<lparr>goal_id = ''g1'', goal_name = ''Emergency Fund'', targetAmount = Num 18000,
        currentAmount = Num 8000, targetDate = 360 * 86400000, goal_priority = high\<rparr>
       = Num (10000 / 12)
   \<and> full_days (360 * 86400000) (365 * 86400000) \<le> 30
   \<and> calculateMonthlyNeeded full_days (365 * 86400000)
       \<lparr>goal_id = ''g1'', goal_name = ''Emergency Fund'', targetAmount = Num 18000,
        currentAmount = Num 8000, targetDate = 360 * 86400000, goal_priority = high\<rparr>
       = Num 10000"
  using monthly_needed_formula [of full_days 0 "''g1''" "''Emergency Fund''" 18000 8000
      "360 * 86400000" high]
    monthly_needed_formula [of full_days "365 * 86400000" "''g1''" "''Emergency Fund''" 18000
      8000 "360 * 86400000" high]
  by (simp add: full_days_def)

text \<open>
  The claim as written fails: with 20000 saved towards 18000, 360 days before the date,
  the monthly amount is \<open>- 2000 / 12\<close>, below zero.
\<close>

theorem monthly_needed_counterexample:
  "calculateMonthlyNeeded full_days 0
     \<lparr>goal_id = ''g1'', goal_name = ''Emergency Fund'', targetAmount = Num 18000,
      currentAmount = Num 20000, targetDate = 360 * 86400000, goal_priority = high\<rparr>
     = Num (- (500 / 3))
   \<and> Num (- (500 / 3)) \<noteq> Num 0"
  by (simp add: calculateMonthlyNeeded_def js_sub_def full_days_def)

lemma monthly_needed_finite:
  "calculateMonthlyNeeded dd now
     \<lparr>goal_id = i, goal_name = n, targetAmount = Num t, currentAmount = Num c,
      targetDate = td, goal_priority = pr\<rparr>
   = Num ((t - c) / max 1 (of_int (dd td now) / 30))"
  by (simp add: calculateMonthlyNeeded_def js_sub_def max_def)

text \<open>
  C9, amended. The monthly amount of a goal is not a function of the goal alone: the
  calculation takes no date and reads the clock itself. For a goal whose target and
  current amounts differ by at least 0.01 and lie within 10^12, and for two clock readings
  whose day counts to the target date lie within 10^7, two calls on the same goal return
  the same amount exactly when \<open>max 1 (days / 30)\<close> is the same at both readings.
\<close>

theorem monthly_needed_clock_dependence:
  assumes "1 / 100 \<le> \<bar>t - c\<bar>" and "\<bar>t\<bar> \<le> 10 ^ 12" and "\<bar>c\<bar> \<le> 10 ^ 12"
    and "\<bar>dd td now1\<bar> \<le> 10 ^ 7" and "\<bar>dd td now2\<bar> \<le> 10 ^ 7"
  shows "(calculateMonthlyNeeded dd now1
            \<lparr>goal_id = i, goal_name = n, targetAmount = Num t, currentAmount = Num c,
             targetDate = td, goal_priority = pr\<rparr>
          = calculateMonthlyNeeded dd now2
            \<lparr>goal_id = i, goal_name = n, targetAmount = Num t, currentAmount = Num c,
             targetDate = td, goal_priority = pr\<rparr>)
       = (max 1 (real_of_int (dd td now1) / 30) = max 1 (real_of_int (dd td now2) / 30))"
proof -
  define x1 where "x1 = max 1 (real_of_int (dd td now1) / 30)"
  define x2 where "x2 = max 1 (real_of_int (dd td now2) / 30)"
  have pos: "0 < x1" "0 < x2" by (simp_all add: x1_def x2_def)
  have ne: "t - c \<noteq> 0" using assms(1) by auto
  have "((t - c) / x1 = (t - c) / x2) = (x1 = x2)"
    using pos ne by (auto simp add: field_simps)
  then show ?thesis
    unfolding monthly_needed_finite by (simp only: number.inject x1_def x2_def)
qed

text \<open>
  The fixture's emergency fund at two readings of the clock within the same day, 360
  days before the target date, and at a reading 180 days later.
\<close>

theorem monthly_needed_clock_dependence_witness:
  "1 / 100 \<le> \<bar>(18000::real) - 8000\<bar> \<and> \<bar>18000::real\<bar> \<le> 10 ^ 12 \<and> \<bar>8000::real\<bar> \<le> 10 ^ 12
   \<and> \<bar>full_days (360 * 86400000 + 43200000) 0\<bar> \<le> 10 ^ 7
   \<and> \<bar>full_days (360 * 86400000 + 43200000) 3600000\<bar> \<le> 10 ^ 7
   \<and> calculateMonthlyNeeded full_days 0
       \<lparr>goal_id = ''g1'', goal_name = ''Emergency Fund'', targetAmount = Num 18000,
        currentAmount = Num 8000, targetDate = 360 * 86400000 + 43200000,
        goal_priority = high\<rparr>
     = calculateMonthlyNeeded full_days 3600000
       \<lparr>goal_id = ''g1'', goal_name = ''Emergency Fund'', targetAmount = Num 18000,
        currentAmount = Num 8000, targetDate = 360 * 86400000 + 43200000,
        goal_priority = high\<rparr>
   \<and> \<bar>full_days (360 * 86400000 + 43200000) (180 * 86400000)\<bar> \<le> 10 ^ 7
   \<and> calculateMonthlyNeeded full_days 0
       \<lparr>goal_id = ''g1'', goal_name = ''Emergency Fund'', targetAmount = Num 18000,
        currentAmount = Num 8000, targetDate = 360 * 86400000 + 43200000,
        goal_priority = high\<rparr>
     \<noteq> calculateMonthlyNeeded full_days (180 * 86400000)
       \<lparr>goal_id = ''g1'', goal_name = ''Emergency Fund'', targetAmount = Num 18000,
        currentAmount = Num 8000, targetDate = 360 * 86400000 + 43200000,
        goal_priority = high\<rparr>"
  using monthly_needed_clock_dependence [of 18000 8000 full_days
      "360 * 86400000 + 43200000" 0 3600000 "''g1''" "''Emergency Fund''" high]
    monthly_needed_clock_dependence [of 18000 8000 full_days
      "360 * 86400000 + 43200000" 0 "180 * 86400000" "''g1''" "''Emergency Fund''" high]
  by (simp add: full_days_def)

text \<open>
  The claim as written fails: the same goal gives 10000 / 12 when the clock stands 360
  days before the target date and 10000 / 6 when it stands 180 days before it.
\<close>

theorem monthly_needed_clock_counterexample:
  "calculateMonthlyNeeded full_days 0
     \<lparr>goal_id = ''g1'', goal_name = ''Emergency Fund'', targetAmount = Num 18000,
      currentAmount = Num 8000, targetDate = 360 * 86400000, goal_priority = high\<rparr>
     = Num (2500 / 3)
   \<and> calculateMonthlyNeeded full_days (180 * 86400000)
       \<lparr>goal_id = ''g1'', goal_name = ''Emergency Fund'', targetAmount = Num 18000,
        currentAmount = Num 8000, targetDate = 360 * 86400000, goal_priority = high\<rparr>
     = Num (5000 / 3)
   \<and> calculateMonthlyNeeded full_days 0
       \<lparr>goal_id = ''g1'', goal_name = ''Emergency Fund'', targetAmount = Num 18000,
        currentAmount = Num 8000, targetDate = 360 * 86400000, goal_priority = high\<rparr>
     \<noteq> calculateMonthlyNeeded full_days (180 * 86400000)
       \<lparr>goal_id = ''g1'', goal_name = ''Emergency Fund'', targetAmount = Num 18000,
        currentAmount = Num 8000, targetDate = 360 * 86400000, goal_priority = high\<rparr>"
  by (simp add: calculateMonthlyNeeded_def js_sub_def full_days_def)

section \<open>Properties of the health score\<close>

text \<open>
  C4. The claim bounds every factor and the overall score by 0 and 100. The savings-rate
  factor has no lower bound in the code: for the profile that earns 1000 and spends 3000,
  with a positive income and a positive emergency-fund target, it is -1000 and the
  overall score is -165.
\<close>

theorem health_score_below_zero:
  "totalIncome deficitProfile = Num 1000
   \<and> emergencyFundTarget deficitProfile = Num 1000
   \<and> savingsRate (scores deficitProfile) = Num (- 1000)
   \<and> overallScore deficitProfile = Num (- 165)"
  by (simp add: deficitProfile_def overallScore_def scores_def totalIncome_def
      totalExpenses_def totalDebt_def totalAssets_def js_sub_def)

end
